theory Spec2Isabelle
  imports Complex_Main
begin

section \<open>Python values and exceptions\<close>

text \<open>
  The program handles the values that \<open>json\<close> produces from the server's responses and
  from the configuration file: \<open>None\<close>, booleans, integers, floats, strings, lists and
  dictionaries (association lists, in insertion order). Floats are modelled as exact
  rationals: rounding, overflow and the special values of IEEE doubles are outside the model.
\<close>

datatype pyval =
    PNone
  | PBool bool
  | PInt int
  | PFloat rat
  | PStr string
  | PList "pyval list"
  | PDict "(string \<times> pyval) list"

text \<open>
  The exceptions the program can meet. \<open>SystemExit\<close> is the only one that is not a subclass
  of \<open>Exception\<close>. \<open>ExternalError\<close> stands for any \<open>Exception\<close> raised inside a library
  call (requests other than \<open>ConnectionError\<close>, the JSON decoder, tweepy, sqlite3).
\<close>

datatype exn =
    TypeError
  | KeyError string
  | IndexError
  | ValueError string
  | ZeroDivisionError
  | AttributeError
  | ExternalError string
  | SystemExit int

fun is_Exception :: "exn \<Rightarrow> bool" where
  "is_Exception (SystemExit _) = False"
| "is_Exception _ = True"

definition ebind :: "exn + 'a \<Rightarrow> ('a \<Rightarrow> exn + 'b) \<Rightarrow> exn + 'b" where
  "ebind m f = (case m of Inl e \<Rightarrow> Inl e | Inr v \<Rightarrow> f v)"

text \<open>
  Library functions of Python that the program calls and that are not part of the
  repository are parameters of the model: \<open>str()\<close> of a value, as f-strings use it, and
  of an exception, \<open>float()\<close> on a string (\<open>None\<close> when it raises \<open>ValueError\<close>),
  \<open>urllib.parse.urlencode\<close> and \<open>json.dumps\<close>.
\<close>

record builtins =
  str_of :: "pyval \<Rightarrow> string"
  exn_str :: "exn \<Rightarrow> string"
  float_of_str :: "string \<Rightarrow> rat option"
  urlencode :: "(string \<times> pyval) list \<Rightarrow> string"
  json_dumps :: "pyval \<Rightarrow> string"

text \<open>Truth value of a Python object, as \<open>if x\<close> tests it.\<close>

fun truthy :: "pyval \<Rightarrow> bool" where
  "truthy PNone = False"
| "truthy (PBool b) = b"
| "truthy (PInt i) = (i \<noteq> 0)"
| "truthy (PFloat r) = (r \<noteq> 0)"
| "truthy (PStr s) = (s \<noteq> [])"
| "truthy (PList xs) = (xs \<noteq> [])"
| "truthy (PDict kvs) = (kvs \<noteq> [])"

text \<open>\<open>float(x)\<close>.\<close>

fun py_float :: "builtins \<Rightarrow> pyval \<Rightarrow> exn + rat" where
  "py_float b PNone = Inl TypeError"
| "py_float b (PBool t) = Inr (if t then 1 else 0)"
| "py_float b (PInt i) = Inr (of_int i)"
| "py_float b (PFloat r) = Inr r"
| "py_float b (PStr s) =
     (case float_of_str b s of
        None \<Rightarrow> Inl (ValueError ''could not convert string to float'')
      | Some r \<Rightarrow> Inr r)"
| "py_float b (PList xs) = Inl TypeError"
| "py_float b (PDict kvs) = Inl TypeError"

text \<open>\<open>x[key]\<close> with a string key, and \<open>x[0]\<close>.\<close>

fun subscript :: "pyval \<Rightarrow> string \<Rightarrow> exn + pyval" where
  "subscript (PDict kvs) k =
     (case map_of kvs k of None \<Rightarrow> Inl (KeyError k) | Some v \<Rightarrow> Inr v)"
| "subscript v k = Inl TypeError"

fun subscript0 :: "pyval \<Rightarrow> exn + pyval" where
  "subscript0 (PList xs) = (case xs of [] \<Rightarrow> Inl IndexError | x # _ \<Rightarrow> Inr x)"
| "subscript0 (PStr s) = (case s of [] \<Rightarrow> Inl IndexError | c # _ \<Rightarrow> Inr (PStr [c]))"
| "subscript0 (PDict kvs) = Inl (KeyError ''0'')"
| "subscript0 v = Inl TypeError"

section \<open>Metrics\<close>

subsection \<open>Formatting with \<open>%.2f\<close>\<close>

definition round_half_even :: "rat \<Rightarrow> int" where
  "round_half_even x =
     (let f = \<lfloor>x\<rfloor>; d = x - of_int f
      in if d < 1 / 2 then f else if 1 / 2 < d then f + 1 else if even f then f else f + 1)"

definition digit :: "nat \<Rightarrow> char" where
  "digit d = ''0123456789'' ! d"

fun dec :: "nat \<Rightarrow> string" where
  "dec n = (if n < 10 then [digit n] else dec (n div 10) @ [digit (n mod 10)])"

declare dec.simps [simp del]

text \<open>
  \<open>"%.2f" % x\<close>: the sign, the integer part in decimal, a point and exactly two digits;
  the value is rounded to the nearest hundredth, ties to even. A negative value that
  rounds to zero keeps its sign.
\<close>

definition fmt2 :: "rat \<Rightarrow> string" where
  "fmt2 x =
     (let n = nat (round_half_even (\<bar>x\<bar> * 100))
      in (if x < 0 then ''-'' else [])
         @ dec (n div 100) @ ''.'' @ [digit (n mod 100 div 10), digit (n mod 10)])"

subsection \<open>\<open>percentage\<close>\<close>

text \<open>
  \<open>"%.2f" % (100 * float(part) / float(whole))\<close>: both conversions come first, in this
  order; dividing by a zero float raises \<open>ZeroDivisionError\<close>.
\<close>

definition percentage :: "builtins \<Rightarrow> pyval \<Rightarrow> pyval \<Rightarrow> exn + string" where
  "percentage b part whole =
     ebind (py_float b part) (\<lambda>p.
     ebind (py_float b whole) (\<lambda>w.
       if w = 0 then Inl ZeroDivisionError else Inr (fmt2 (100 * p / w))))"


section \<open>The REST client\<close>

definition nl :: char where
  "nl = CHR 0x0A"

definition tab :: char where
  "tab = CHR 0x09"

text \<open>
  \<open>str.upper\<close> on a string of bytes: a small ASCII letter becomes its capital, every other
  character stays as it is.
\<close>

definition upper_char :: "char \<Rightarrow> char" where
  "upper_char c =
     (case map_of (zip ''abcdefghijklmnopqrstuvwxyz'' ''ABCDEFGHIJKLMNOPQRSTUVWXYZ'') c of
        Some u \<Rightarrow> u
      | None \<Rightarrow> c)"

definition upper :: "string \<Rightarrow> string" where
  "upper s = map upper_char s"

text \<open>
  One HTTP request as \<open>requests.Session.request\<close> receives it. The URL is \<open>basepath\<close> with
  its query component replaced by \<open>query\<close> (\<open>urlparse\<close>, \<open>urlunparse\<close>).
\<close>

record request =
  req_method :: string
  req_basepath :: string
  req_query :: string
  req_headers :: "(string \<times> string) list"
  req_body :: string
  req_auth :: "pyval \<times> pyval"

text \<open>
  What the server and the network do with a request: a response whose body parses as
  JSON, \<open>requests.exceptions.ConnectionError\<close>, or any other exception of the library.
\<close>

datatype http_outcome =
    Response pyval
  | ConnectionError
  | RequestFailure string

text \<open>The effects of the program on the outside, in the order they happen.\<close>

datatype event =
    Print string
  | LogWarning string
  | HttpRequest request
  | UpdateStatus string
  | SqlCreate
  | SqlInsert "pyval list"
  | Sleep pyval

text \<open>The table \<open>trades\<close> of \<open>history.db\<close>: its columns and its rows, oldest first.\<close>

record table =
  columns :: "string list"
  rows :: "pyval list list"

record world =
  trace :: "event list"
  db :: "table option"

text \<open>
  What is outside the program during one poll cycle: the server's answers, whether the
  social provider and the database library fail, and the clock.
\<close>

record env =
  respond :: "request \<Rightarrow> http_outcome"
  post_fails :: "string option"
  sqlite_fails :: "string option"
  clock :: rat

definition emit :: "event \<Rightarrow> world \<Rightarrow> world" where
  "emit e w = w\<lparr>trace := trace w @ [e]\<rparr>"

record client =
  serverurl :: pyval
  username :: pyval
  password :: pyval

definition valid_methods :: "string list" where
  "valid_methods = [''GET'', ''POST'', ''PUT'', ''DELETE'']"

text \<open>The query string: \<open>urlencode(params) if params else ""\<close>.\<close>

definition query_string :: "builtins \<Rightarrow> pyval \<Rightarrow> exn + string" where
  "query_string b params =
     (if truthy params
      then (case params of PDict kvs \<Rightarrow> Inr (urlencode b kvs) | _ \<Rightarrow> Inl TypeError)
      else Inr [])"

text \<open>The request that \<open>_call\<close> hands to the session.\<close>

definition make_request :: "builtins \<Rightarrow> client \<Rightarrow> string \<Rightarrow> string \<Rightarrow> string \<Rightarrow> pyval \<Rightarrow> request" where
  "make_request b cl method apipath query data =
     \<lparr>req_method = method,
      req_basepath = str_of b (serverurl cl) @ ''/api/v1/'' @ apipath,
      req_query = query,
      req_headers = [(''Accept'', ''application/json''), (''Content-Type'', ''application/json'')],
      req_body = json_dumps b data,
      req_auth = (username cl, password cl)\<rparr>"

text \<open>
  \<open>_call\<close>: the check of the method, then the request; a \<open>ConnectionError\<close> is logged and
  the function falls off its end, returning \<open>None\<close>.
\<close>

definition call :: "builtins \<Rightarrow> env \<Rightarrow> client \<Rightarrow> string \<Rightarrow> string \<Rightarrow> pyval \<Rightarrow> pyval
    \<Rightarrow> world \<Rightarrow> world \<times> (exn + pyval)" where
  "call b en cl method apipath params data w =
     (if upper method \<notin> set valid_methods
      then (w, Inl (ValueError (''invalid method <'' @ method @ ''>'')))
      else case query_string b params of
             Inl e \<Rightarrow> (w, Inl e)
           | Inr query \<Rightarrow>
               let req = make_request b cl method apipath query data;
                   w1 = emit (HttpRequest req) w
               in case respond en req of
                    Response v \<Rightarrow> (w1, Inr v)
                  | ConnectionError \<Rightarrow> (emit (LogWarning ''Connection error'') w1, Inr PNone)
                  | RequestFailure m \<Rightarrow> (w1, Inl (ExternalError m)))"

definition get :: "builtins \<Rightarrow> env \<Rightarrow> client \<Rightarrow> string \<Rightarrow> pyval
    \<Rightarrow> world \<Rightarrow> world \<times> (exn + pyval)" where
  "get b en cl apipath params = call b en cl ''GET'' apipath params PNone"

definition post :: "builtins \<Rightarrow> env \<Rightarrow> client \<Rightarrow> string \<Rightarrow> pyval \<Rightarrow> pyval
    \<Rightarrow> world \<Rightarrow> world \<times> (exn + pyval)" where
  "post b en cl apipath params data = call b en cl ''POST'' apipath params data"

text \<open>\<open>daily(self, days=None)\<close>; an omitted argument is the default \<open>None\<close>.\<close>

definition daily :: "builtins \<Rightarrow> env \<Rightarrow> client \<Rightarrow> pyval \<Rightarrow> world \<Rightarrow> world \<times> (exn + pyval)" where
  "daily b en cl days =
     get b en cl ''daily'' (if truthy days then PDict [(''timescale'', days)] else PNone)"

definition profit :: "builtins \<Rightarrow> env \<Rightarrow> client \<Rightarrow> world \<Rightarrow> world \<times> (exn + pyval)" where
  "profit b en cl = get b en cl ''profit'' PNone"


section \<open>The report\<close>

text \<open>
  Statements run in sequence on the world; the first exception ends the sequence.
\<close>

definition wbind :: "world \<times> (exn + 'a) \<Rightarrow> ('a \<Rightarrow> world \<Rightarrow> world \<times> (exn + 'b))
    \<Rightarrow> world \<times> (exn + 'b)" where
  "wbind m f = (case m of (w, Inl e) \<Rightarrow> (w, Inl e) | (w, Inr v) \<Rightarrow> f v w)"

text \<open>\<open>starting_capital + x\<close> for a float \<open>x\<close>.\<close>

fun py_add_float :: "pyval \<Rightarrow> rat \<Rightarrow> exn + rat" where
  "py_add_float (PInt i) x = Inr (of_int i + x)"
| "py_add_float (PFloat r) x = Inr (r + x)"
| "py_add_float (PBool t) x = Inr ((if t then 1 else 0) + x)"
| "py_add_float v x = Inl TypeError"

record metrics =
  closed_profit_today :: string
  closed_profit_percentage_total :: string
  open_profit_percentage_total :: string
  position_size_percentage :: string
  best_pair_profit_percentage :: string

text \<open>
  The five percentages, computed by the same statements at the head of \<open>tweet\<close> and of
  \<open>db_save\<close> (the local \<open>position_size\<close> is overwritten by its percentage there).
\<close>

definition derived_metrics :: "builtins \<Rightarrow> pyval \<Rightarrow> pyval \<Rightarrow> pyval \<Rightarrow> pyval \<Rightarrow> exn + metrics" where
  "derived_metrics b output_profit output_daily_data starting_capital position_size =
     ebind (subscript output_daily_data ''abs_profit'') (\<lambda>abs_profit.
     ebind (percentage b abs_profit starting_capital) (\<lambda>today.
     ebind (subscript output_profit ''profit_closed_coin'') (\<lambda>closed_coin.
     ebind (percentage b closed_coin starting_capital) (\<lambda>closed_total.
     ebind (subscript output_profit ''profit_all_coin'') (\<lambda>all_coin.
     ebind (percentage b all_coin starting_capital) (\<lambda>open_total.
     ebind (subscript output_profit ''profit_closed_coin'') (\<lambda>closed_coin'.
     ebind (py_float b closed_coin') (\<lambda>closed.
     ebind (py_add_float starting_capital closed) (\<lambda>current_capital.
     ebind (percentage b position_size (PFloat current_capital)) (\<lambda>size.
     ebind (subscript output_profit ''best_rate'') (\<lambda>best_rate.
     ebind (percentage b best_rate starting_capital) (\<lambda>best.
       Inr \<lparr>closed_profit_today = today,
            closed_profit_percentage_total = closed_total,
            open_profit_percentage_total = open_total,
            position_size_percentage = size,
            best_pair_profit_percentage = best\<rparr>))))))))))))"

text \<open>The list \<open>composed\<close> of \<open>tweet\<close>, one \<open>append\<close> after the other.\<close>

definition compose :: "builtins \<Rightarrow> pyval \<Rightarrow> pyval \<Rightarrow> metrics \<Rightarrow> exn + string list" where
  "compose b output_profit output_daily_data m =
     ebind (subscript output_daily_data ''date'') (\<lambda>date.
     ebind (subscript output_daily_data ''trade_count'') (\<lambda>trades_today.
     ebind (subscript output_profit ''best_pair'') (\<lambda>best_pair.
     ebind (subscript output_profit ''trade_count'') (\<lambda>trade_count.
     ebind (subscript output_profit ''closed_trade_count'') (\<lambda>closed_trade_count.
     ebind (subscript output_profit ''latest_trade_date'') (\<lambda>latest_trade_date.
     ebind (subscript output_profit ''avg_duration'') (\<lambda>avg_duration.
       Inr [''Closed profit today ('' @ str_of b date @ ''): '' @ closed_profit_today m @ ''%'',
            ''Trades today: '' @ str_of b trades_today,
            ''Open/closed total profit: '' @ open_profit_percentage_total m @ ''%/''
              @ closed_profit_percentage_total m @ ''%'',
            ''Position size: '' @ position_size_percentage m @ ''%'',
            ''Best: '' @ str_of b best_pair @ '' ('' @ best_pair_profit_percentage m @ ''%)'',
            ''All trades/closed: '' @ str_of b trade_count @ ''/''
              @ str_of b closed_trade_count,
            ''Last action: '' @ str_of b latest_trade_date,
            ''Average trade duration: '' @ str_of b avg_duration])))))))"

text \<open>\<open>sep.join(xs)\<close>.\<close>

fun join :: "string \<Rightarrow> string list \<Rightarrow> string" where
  "join sep [] = []"
| "join sep [x] = x"
| "join sep (x # y # xs) = x @ sep @ join sep (y # xs)"

text \<open>The text that \<open>tweet\<close> posts: \<open>to_tweet\<close>.\<close>

definition to_tweet :: "builtins \<Rightarrow> pyval \<Rightarrow> pyval \<Rightarrow> pyval \<Rightarrow> pyval \<Rightarrow> exn + string" where
  "to_tweet b output_profit output_daily_data starting_capital position_size =
     ebind (derived_metrics b output_profit output_daily_data starting_capital position_size)
       (\<lambda>m.
     ebind (compose b output_profit output_daily_data m) (\<lambda>composed.
       Inr (join [nl] composed)))"

text \<open>\<open>config.get("api_server", {}).get(key)\<close>.\<close>

definition api_server_get :: "pyval \<Rightarrow> string \<Rightarrow> exn + pyval" where
  "api_server_get config key =
     (case config of
        PDict kvs \<Rightarrow>
          (case map_of kvs ''api_server'' of
             None \<Rightarrow> Inr PNone
           | Some (PDict section) \<Rightarrow>
               Inr (case map_of section key of None \<Rightarrow> PNone | Some v \<Rightarrow> v)
           | Some _ \<Rightarrow> Inl AttributeError)
      | _ \<Rightarrow> Inl AttributeError)"

text \<open>
  \<open>tweet\<close>. Building the tweepy handler and API objects from the four credentials sends
  nothing; the post is \<open>api.update_status\<close>.
\<close>

definition tweet :: "builtins \<Rightarrow> env \<Rightarrow> pyval \<Rightarrow> pyval \<Rightarrow> pyval \<Rightarrow> pyval \<Rightarrow> pyval
    \<Rightarrow> world \<Rightarrow> world \<times> (exn + unit)" where
  "tweet b en config output_profit output_daily_data starting_capital position_size w =
     (let w1 = emit (Print ''Tweeting...'') w in
      wbind (w1, api_server_get config ''api_key'') (\<lambda>api_key w.
      wbind (w, api_server_get config ''api_secret_key'') (\<lambda>api_secret_key w.
      wbind (w, api_server_get config ''access_token'') (\<lambda>access_token w.
      wbind (w, api_server_get config ''access_token_secret'') (\<lambda>access_token_secret w.
      wbind (w, to_tweet b output_profit output_daily_data starting_capital position_size)
        (\<lambda>text w.
          let w2 = emit (UpdateStatus text) (emit (Print text) w)
          in case post_fails en of
               Some m \<Rightarrow> (w2, Inl (ExternalError m))
             | None \<Rightarrow> (w2, Inr ())))))))"

section \<open>The record store\<close>

text \<open>The columns of \<open>SQL_CREATE\<close>, in its order.\<close>

definition trades_columns :: "string list" where
  "trades_columns =
     [''timestamp'', ''day'', ''closed_profit_today'', ''trades_today'',
      ''closed_profit_percentage_total'', ''open_profit_percentage_total'', ''position_size'',
      ''best_pair'', ''best_pair_profit_percentage'', ''all_trades'', ''closed_trades'',
      ''last_action'', ''average_duration'']"

text \<open>\<open>CREATE TABLE IF NOT EXISTS trades (...)\<close>.\<close>

definition sql_create :: "table option \<Rightarrow> table option" where
  "sql_create d =
     (case d of None \<Rightarrow> Some \<lparr>columns = trades_columns, rows = []\<rparr> | Some t \<Rightarrow> Some t)"

text \<open>
  \<open>INSERT INTO trades VALUES (?,...)\<close>: the values are bound to the columns by position.
  sqlite3 binds \<open>None\<close>, numbers and strings only, and refuses a row whose length is not
  the number of columns.
\<close>

fun bindable :: "pyval \<Rightarrow> bool" where
  "bindable (PList xs) = False"
| "bindable (PDict kvs) = False"
| "bindable v = True"

definition sql_insert :: "pyval list \<Rightarrow> table option \<Rightarrow> exn + table option" where
  "sql_insert row d =
     (if \<not> list_all bindable row then Inl (ExternalError ''sqlite3: unsupported type'')
      else case d of
             None \<Rightarrow> Inl (ExternalError ''sqlite3: no such table'')
           | Some t \<Rightarrow>
               if length row \<noteq> length (columns t)
               then Inl (ExternalError ''sqlite3: wrong number of values'')
               else Inr (Some (t\<lparr>rows := rows t @ [row]\<rparr>)))"

text \<open>The value a row holds in a named column.\<close>

definition column_value :: "table \<Rightarrow> pyval list \<Rightarrow> string \<Rightarrow> pyval option" where
  "column_value t row name = map_of (zip (columns t) row) name"

definition db_save :: "builtins \<Rightarrow> env \<Rightarrow> pyval \<Rightarrow> pyval \<Rightarrow> pyval \<Rightarrow> pyval \<Rightarrow> pyval
    \<Rightarrow> world \<Rightarrow> world \<times> (exn + unit)" where
  "db_save b en config output_profit output_daily_data starting_capital position_size w =
     (let w1 = emit (Print ''Saving to database...'') w in
      wbind (w1, derived_metrics b output_profit output_daily_data starting_capital
                   position_size) (\<lambda>m w.
      let timestamp = PFloat (clock en) in
      wbind (w, case sqlite_fails en of Some e \<Rightarrow> Inl (ExternalError e) | None \<Rightarrow> Inr ())
        (\<lambda>connection w.
      let w2 = (emit SqlCreate w)\<lparr>db := sql_create (db w)\<rparr> in
      wbind (w2, subscript output_daily_data ''date'') (\<lambda>date w.
      wbind (w, subscript output_daily_data ''trade_count'') (\<lambda>trades_today w.
      wbind (w, subscript output_profit ''best_pair'') (\<lambda>best_pair w.
      wbind (w, subscript output_profit ''trade_count'') (\<lambda>trade_count w.
      wbind (w, subscript output_profit ''closed_trade_count'') (\<lambda>closed_trade_count w.
      wbind (w, subscript output_profit ''latest_trade_date'') (\<lambda>latest_trade_date w.
      wbind (w, subscript output_profit ''avg_duration'') (\<lambda>avg_duration w.
      let row = [timestamp, date, PStr (closed_profit_today m), trades_today,
                 PStr (closed_profit_percentage_total m),
                 PStr (open_profit_percentage_total m),
                 PStr (position_size_percentage m),
                 PStr (best_pair_profit_percentage m),
                 best_pair, trade_count, closed_trade_count, latest_trade_date,
                 avg_duration];
          w3 = emit (SqlInsert row) w
      in case sql_insert row (db w3) of
           Inl e \<Rightarrow> (w3, Inl e)
         | Inr d \<Rightarrow> (w3\<lparr>db := d\<rparr>, Inr ())))))))))))"

section \<open>The command listing\<close>

text \<open>
  The attributes of a client that the class body defines, as \<open>inspect.getmembers\<close> lists
  them (sorted by name; every attribute inherited from \<open>object\<close> starts with an
  underscore too), each with its docstring. A docstring is the source text between the
  quotes: its lines after the first are indented by eight spaces unless empty, and the
  closing quotes stand on an indented line of their own.
\<close>

definition indent :: "string \<Rightarrow> string" where
  "indent line = (if line = [] then [] else replicate 8 CHR '' '' @ line)"

definition doc :: "string list \<Rightarrow> string" where
  "doc ls =
     join [nl] (case ls of [] \<Rightarrow> [] | l # rest \<Rightarrow> l # map indent rest)
     @ nl # replicate 8 CHR '' ''"

definition json_object :: "string list" where
  "json_object = ['''', '':return: json object'']"

definition members :: "(string \<times> string option) list" where
  "members =
     [(''__init__'', None), (''_call'', None), (''_get'', None), (''_post'', None),
      (''_serverurl'', None), (''_session'', None),
      (''balance'', Some (doc (''Get the account balance.'' # json_object))),
      (''blacklist'', Some (doc [''Show the current blacklist.'', '''',
         '':param add: List of coins to add (example: '' @ [CHR 0x22] @ ''BNB/BTC''
           @ [CHR 0x22] @ '')'',
         '':return: json object''])),
      (''count'', Some (doc (''Return the amount of open trades.'' # json_object))),
      (''daily'', Some (doc (''Return the amount of open trades.'' # json_object))),
      (''edge'', Some (doc (''Return information about edge.'' # json_object))),
      (''forcebuy'', Some (doc [''Buy an asset.'', '''',
         '':param pair: Pair to buy (ETH/BTC)'',
         '':param price: Optional - price to buy'',
         '':return: json object of the trade''])),
      (''forcesell'', Some (doc [''Force-sell a trade.'', '''',
         '':param tradeid: Id of the trade (can be received via status command)'',
         '':return: json object''])),
      (''performance'',
         Some (doc (''Return the performance of the different coins.'' # json_object))),
      (''profit'', Some (doc (''Return the profit summary.'' # json_object))),
      (''reload_conf'', Some (doc (''Reload configuration.'' # json_object))),
      (''show_config'', Some (doc ['''',
         ''Returns part of the configuration, relevant for trading operations.'',
         '':return: json object containing the version''])),
      (''start'', Some (doc ((''Start the bot if it'' @ [CHR 0x27] @ ''s in the stopped state.'')
         # json_object))),
      (''status'', Some (doc (''Get the status of open trades.'' # json_object))),
      (''stop'', Some (doc (''Stop the bot. Use `start` to restart.'' # json_object))),
      (''stopbuy'', Some (doc
         (''Stop buying (but handle sells gracefully). Use `reload_conf` to reset.''
          # json_object))),
      (''trades'', Some (doc [''Return trades history.'', '''',
         '':param limit: Limits trades to the X last trades. No limit to get all the trades.'',
         '':return: json object''])),
      (''version'', Some (doc [''Return the version of the bot.'', '''',
         '':return: json object containing the version''])),
      (''whitelist'', Some (doc (''Show the current whitelist.'' # json_object)))]"

text \<open>
  \<open>re.sub(":return:.*", "", s, flags=re.MULTILINE)\<close>: every \<open>:return:\<close> goes, with the rest
  of its line (\<open>skip\<close> is set while the rest of a line is being dropped).
\<close>

fun sub_return :: "bool \<Rightarrow> string \<Rightarrow> string" where
  "sub_return skip [] = []"
| "sub_return skip (c # cs) =
     (if c = CHR 0x0A then c # sub_return False cs
      else if skip then sub_return True cs
      else if take 8 (c # cs) = '':return:'' then sub_return True cs
      else c # sub_return False cs)"

text \<open>\<open>s.rstrip()\<close>.\<close>

definition is_space :: "char \<Rightarrow> bool" where
  "is_space c = (c \<in> set [CHR '' '', CHR 0x09, CHR 0x0A, CHR 0x0B, CHR 0x0C, CHR 0x0D,
                            CHR 0x1C, CHR 0x1D, CHR 0x1E, CHR 0x1F])"

definition rstrip :: "string \<Rightarrow> string" where
  "rstrip s = rev (dropWhile is_space (rev s))"

definition startswith :: "string \<Rightarrow> string \<Rightarrow> bool" where
  "startswith s p = (take (length p) s = p)"

text \<open>What is printed of a docstring: \<open>re.sub(":return:.*", "", doc, ...).rstrip()\<close>.\<close>

definition description :: "string \<Rightarrow> string" where
  "description d = rstrip (sub_return False d)"

text \<open>The \<open>for\<close> loop of \<open>print_commands\<close>, over the members that are left.\<close>

fun print_members :: "(string \<times> string option) list \<Rightarrow> world \<Rightarrow> world \<times> (exn + unit)" where
  "print_members [] w = (w, Inr ())"
| "print_members ((x, y) # ms) w =
     (if \<not> startswith x ''_''
      then (case y of
              None \<Rightarrow> (w, Inl TypeError)
            | Some d \<Rightarrow>
                print_members ms (emit (Print (x @ [nl, tab] @ description d @ [nl])) w))
      else print_members ms w)"

text \<open>\<open>print_commands\<close>; building a client with no server URL sends nothing.\<close>

definition print_commands_fn :: "world \<Rightarrow> world \<times> (exn + unit)" where
  "print_commands_fn w = print_members members (emit (Print (''Possible commands:'' @ [nl])) w)"

section \<open>One poll cycle\<close>

text \<open>The parsed command line (\<open>add_arguments\<close>).\<close>

record cli_args =
  command :: "string option"
  show_flag :: bool
  config_path :: string
  command_arguments :: "string list"

text \<open>The module-level names that the main block binds from the configuration.\<close>

record globals =
  g_config :: pyval
  g_url :: pyval
  g_port :: pyval
  g_username :: pyval
  g_password :: pyval
  g_save_to_db :: pyval
  g_send_tweet :: pyval
  g_starting_capital :: pyval
  g_position_size :: pyval
  g_run_interval :: pyval

text \<open>The client of \<open>main\<close>: \<open>FtRestClient(f"http://{url}:{port}", username, password)\<close>.\<close>

definition new_client :: "builtins \<Rightarrow> globals \<Rightarrow> client" where
  "new_client b g =
     \<lparr>serverurl = PStr (''http://'' @ str_of b (g_url g) @ '':'' @ str_of b (g_port g)),
      username = g_username g, password = g_password g\<rparr>"

text \<open>
  \<open>main(args)\<close>. \<open>sys.exit()\<close> raises \<open>SystemExit\<close> with status 0. The command arguments are
  passed on to \<open>profit\<close>, which takes none, and to \<open>daily\<close>, which takes at most one.
\<close>

definition main :: "builtins \<Rightarrow> env \<Rightarrow> globals \<Rightarrow> cli_args \<Rightarrow> world \<Rightarrow> world \<times> (exn + unit)" where
  "main b en g args w =
     (if show_flag args
      then wbind (print_commands_fn w) (\<lambda>u w. (w, Inl (SystemExit 0)))
      else
        let cl = new_client b g in
        wbind (case command_arguments args of
                 [] \<Rightarrow> profit b en cl w
               | a # as \<Rightarrow> (w, Inl TypeError)) (\<lambda>output_profit w.
        wbind (case command_arguments args of
                 [] \<Rightarrow> daily b en cl PNone w
               | [a] \<Rightarrow> daily b en cl (PStr a) w
               | a # a' # as \<Rightarrow> (w, Inl TypeError)) (\<lambda>output_daily w.
        wbind (w, ebind (subscript output_daily ''data'') subscript0) (\<lambda>output_daily_data w.
        wbind (if truthy (g_send_tweet g)
               then tweet b en (g_config g) output_profit output_daily_data
                      (g_starting_capital g) (g_position_size g) w
               else (w, Inr ())) (\<lambda>u w.
        if truthy (g_save_to_db g)
        then db_save b en (g_config g) output_profit output_daily_data
               (g_starting_capital g) (g_position_size g) w
        else (w, Inr ()))))))"

section \<open>The scheduler\<close>

text \<open>\<open>run_interval / 60\<close> and \<open>time.sleep(run_interval)\<close>.\<close>

fun py_div60 :: "pyval \<Rightarrow> exn + rat" where
  "py_div60 (PInt i) = Inr (of_int i / 60)"
| "py_div60 (PFloat r) = Inr (r / 60)"
| "py_div60 (PBool t) = Inr ((if t then 1 else 0) / 60)"
| "py_div60 v = Inl TypeError"

fun time_sleep :: "pyval \<Rightarrow> world \<Rightarrow> world \<times> (exn + unit)" where
  "time_sleep (PInt i) w =
     (if i < 0 then (w, Inl (ValueError ''sleep length must be non-negative''))
      else (emit (Sleep (PInt i)) w, Inr ()))"
| "time_sleep (PFloat r) w =
     (if r < 0 then (w, Inl (ValueError ''sleep length must be non-negative''))
      else (emit (Sleep (PFloat r)) w, Inr ()))"
| "time_sleep (PBool t) w = (emit (Sleep (PBool t)) w, Inr ())"
| "time_sleep v w = (w, Inl TypeError)"

text \<open>
  One pass through the body of \<open>while True\<close>: the \<open>try\<close> block, the handler for
  \<open>Exception\<close> and the \<open>finally\<close> block. The result is the exception that leaves the loop,
  if one does: what the handler did not catch, unless \<open>time.sleep\<close> raises itself.
\<close>

definition cycle :: "builtins \<Rightarrow> env \<Rightarrow> globals \<Rightarrow> cli_args \<Rightarrow> world \<Rightarrow> world \<times> exn option" where
  "cycle b en g args w =
     (let (w1, tried) =
            wbind (main b en g args w) (\<lambda>u w.
            wbind (w, py_div60 (g_run_interval g)) (\<lambda>minutes w.
              (emit (Print (''Sleeping for '' @ str_of b (PFloat minutes) @ '' minutes'')) w,
               Inr ())));
          (w2, pending) =
            (case tried of
               Inr u \<Rightarrow> (w1, None)
             | Inl e \<Rightarrow>
                 if is_Exception e
                 then (emit (Print (''An error occurred: '' @ exn_str b e @ '', skipping run'')) w1,
                       None)
                 else (w1, Some e))
      in case time_sleep (g_run_interval g) w2 of
           (w3, Inl e) \<Rightarrow> (w3, Some e)
         | (w3, Inr u) \<Rightarrow> (w3, pending))"

text \<open>
  The loop never ends by itself; \<open>run n\<close> is its first \<open>n\<close> passes, each in the environment
  of its time, stopping at the first exception that leaves the loop.
\<close>

fun run :: "nat \<Rightarrow> builtins \<Rightarrow> (nat \<Rightarrow> env) \<Rightarrow> globals \<Rightarrow> cli_args \<Rightarrow> world
    \<Rightarrow> world \<times> exn option" where
  "run 0 b envs g args w = (w, None)"
| "run (Suc n) b envs g args w =
     (case cycle b (envs 0) g args w of
        (w', Some e) \<Rightarrow> (w', Some e)
      | (w', None) \<Rightarrow> run n b (\<lambda>k. envs (Suc k)) g args w')"

section \<open>The main block\<close>

text \<open>What \<open>load_config\<close> finds at the path: no file, a file that is not JSON, or a document.\<close>

datatype config_file = Missing | Unparsable | Document pyval

definition load_config :: "string \<Rightarrow> config_file \<Rightarrow> world \<Rightarrow> world \<times> (exn + pyval)" where
  "load_config configfile file w =
     (case file of
        Document config \<Rightarrow> (w, Inr config)
      | Unparsable \<Rightarrow> (w, Inl (ExternalError ''json.load''))
      | Missing \<Rightarrow>
          (emit (LogWarning (''Could not load config file '' @ configfile @ ''.'')) w,
           Inl (SystemExit 1)))"

text \<open>
  The main block, up to \<open>n\<close> passes of its loop: the exception that ends the process, if
  any, and the world it leaves.
\<close>

definition program :: "nat \<Rightarrow> builtins \<Rightarrow> config_file \<Rightarrow> (nat \<Rightarrow> env) \<Rightarrow> cli_args \<Rightarrow> world
    \<Rightarrow> world \<times> exn option" where
  "program n b file envs args w =
     (case
        wbind (load_config (config_path args) file w) (\<lambda>config w.
        wbind (w, api_server_get config ''server_url'') (\<lambda>url w.
        wbind (w, api_server_get config ''listen_port'') (\<lambda>port w.
        wbind (w, api_server_get config ''username'') (\<lambda>username w.
        wbind (w, api_server_get config ''password'') (\<lambda>password w.
        wbind (w, api_server_get config ''save_to_db'') (\<lambda>save_to_db w.
        wbind (w, api_server_get config ''send_tweet'') (\<lambda>send_tweet w.
        wbind (w, api_server_get config ''starting_capital'') (\<lambda>starting_capital w.
        wbind (w, api_server_get config ''position_size'') (\<lambda>position_size w.
        wbind (w, api_server_get config ''run_interval'') (\<lambda>run_interval w.
          (emit (Print (''Tweeting configured to '' @ str_of b send_tweet))
             (emit (Print (''Database saving configured to '' @ str_of b save_to_db)) w),
           Inr \<lparr>g_config = config, g_url = url, g_port = port, g_username = username,
                g_password = password, g_save_to_db = save_to_db, g_send_tweet = send_tweet,
                g_starting_capital = starting_capital, g_position_size = position_size,
                g_run_interval = run_interval\<rparr>)))))))))))
      of (w', Inl e) \<Rightarrow> (w', Some e)
       | (w', Inr g) \<Rightarrow> run n b envs g args w')"


section \<open>Reading a decimal string\<close>






section \<open>Reading a trace\<close>

text \<open>The publishing effects: the post and every statement sent to the database.\<close>

fun is_publish :: "event \<Rightarrow> bool" where
  "is_publish (UpdateStatus s) = True"
| "is_publish SqlCreate = True"
| "is_publish (SqlInsert row) = True"
| "is_publish e = False"


fun is_sleep :: "event \<Rightarrow> bool" where
  "is_sleep (Sleep v) = True"
| "is_sleep e = False"


text \<open>The commands that \<open>print_commands\<close> shows, each with its description as printed.\<close>

definition described :: "(string \<times> string option) list \<Rightarrow> (string \<times> string) list" where
  "described ms =
     concat (map (\<lambda>(x, y). case y of
                                 Some d \<Rightarrow> if startswith x ''_'' then [] else [(x, description d)]
                               | None \<Rightarrow> []) ms)"

definition listing :: "(string \<times> string option) list \<Rightarrow> event list" where
  "listing ms = map (\<lambda>(x, d). Print (x @ [nl, tab] @ d @ [nl])) (described ms)"

text \<open>A result that is no exception, or one that \<open>except Exception\<close> catches.\<close>

definition catchable :: "exn + 'a \<Rightarrow> bool" where
  "catchable r = (case r of Inl e \<Rightarrow> is_Exception e | Inr v \<Rightarrow> True)"

text \<open>From \<open>w\<close> to \<open>w'\<close> nothing was published: no post, no statement, the same table.\<close>

definition quiet :: "world \<Rightarrow> world \<Rightarrow> bool" where
  "quiet w w' =
     (db w' = db w \<and> filter is_publish (trace w') = filter is_publish (trace w))"

text \<open>The trace of \<open>w'\<close> is that of \<open>w\<close> and then events that all satisfy \<open>P\<close>.\<close>

definition extends :: "(event \<Rightarrow> bool) \<Rightarrow> world \<Rightarrow> world \<Rightarrow> bool" where
  "extends P w w' =
     (take (length (trace w)) (trace w') = trace w
      \<and> list_all P (drop (length (trace w)) (trace w')))"

text \<open>The requests sent, in order.\<close>

definition sent :: "world \<Rightarrow> request list" where
  "sent w = concat (map (\<lambda>e. case e of HttpRequest r \<Rightarrow> [r] | _ \<Rightarrow> []) (trace w))"

text \<open>A run interval that \<open>time.sleep\<close> accepts: a number that is not negative.\<close>

fun valid_interval :: "pyval \<Rightarrow> bool" where
  "valid_interval (PInt i) = (0 \<le> i)"
| "valid_interval (PFloat r) = (0 \<le> r)"
| "valid_interval (PBool t) = True"
| "valid_interval v = False"

section \<open>Sample values\<close>

text \<open>
  A plain instance of the library functions, for evaluating the model on concrete inputs:
  strings print as themselves and integers in decimal.
\<close>

definition sample_builtins :: builtins where
  "sample_builtins =
     \<lparr>str_of = (\<lambda>v. case v of
                         PStr s \<Rightarrow> s
                       | PInt i \<Rightarrow> (if i < 0 then ''-'' else []) @ dec (nat \<bar>i\<bar>)
                       | _ \<Rightarrow> ''?''),
      exn_str = (\<lambda>e. ''error''),
      float_of_str = (\<lambda>s. None),
      urlencode = (\<lambda>kvs. concat (map (\<lambda>(k, v). k @ ''='') kvs)),
      json_dumps = (\<lambda>v. ''null'')\<rparr>"

text \<open>The summaries, capital and position size of the example in the specification.\<close>

definition sample_profit :: pyval where
  "sample_profit =
     PDict [(''profit_closed_coin'', PInt 100), (''profit_all_coin'', PInt 150),
            (''best_rate'', PInt 20), (''best_pair'', PStr ''ETH/BTC''),
            (''trade_count'', PInt 10), (''closed_trade_count'', PInt 8),
            (''latest_trade_date'', PStr ''2024-01-01''), (''avg_duration'', PStr ''2:30'')]"

definition sample_daily_data :: pyval where
  "sample_daily_data =
     PDict [(''date'', PStr ''2024-01-01''), (''abs_profit'', PInt 10), (''trade_count'', PInt 2)]"

definition sample_config :: pyval where
  "sample_config =
     PDict [(''api_server'',
       PDict [(''server_url'', PStr ''localhost''), (''listen_port'', PInt 8080),
              (''save_to_db'', PBool True), (''send_tweet'', PBool True),
              (''starting_capital'', PInt 1000), (''position_size'', PInt 50),
              (''run_interval'', PInt 3600)])]"


definition sample_client :: client where
  "sample_client = \<lparr>serverurl = PStr ''http://localhost:8080'', username = PNone, password = PNone\<rparr>"

definition sample_args :: cli_args where
  "sample_args =
     \<lparr>command = None, show_flag = False, config_path = ''config.json'', command_arguments = []\<rparr>"

text \<open>A server that answers with the example, and a network that is down.\<close>

definition sample_env :: env where
  "sample_env =
     \<lparr>respond = (\<lambda>r. if req_basepath r = ''http://localhost:8080/api/v1/profit''
                       then Response sample_profit
                       else Response (PDict [(''data'', PList [sample_daily_data])])),
      post_fails = None, sqlite_fails = None, clock = 1700000000\<rparr>"

definition offline_env :: env where
  "offline_env =
     \<lparr>respond = (\<lambda>r. ConnectionError), post_fails = None, sqlite_fails = None,
      clock = 1700000000\<rparr>"

definition empty_world :: world where
  "empty_world = \<lparr>trace = [], db = None\<rparr>"



text \<open>What the rows of the table hold in a named column, oldest row first.\<close>

definition stored :: "world \<Rightarrow> string \<Rightarrow> pyval option list" where
  "stored w name =
     (case db w of None \<Rightarrow> [] | Some t \<Rightarrow> map (\<lambda>row. column_value t row name) (rows t))"

text \<open>The command line with \<open>--show\<close>, and environments that stay the same over time.\<close>

definition show_args :: cli_args where
  "show_args = sample_args\<lparr>show_flag := True\<rparr>"

definition sample_envs :: "nat \<Rightarrow> env" where
  "sample_envs k = sample_env"


section \<open>Properties of the formatting\<close>

























section \<open>The claims\<close>



section \<open>The REST client\<close>

lemma upper_GET: "upper ''GET'' \<in> set valid_methods"
  by (simp add: upper_def upper_char_def valid_methods_def)

lemma upper_GET_eq: "upper ''GET'' = ''GET''"
  by (simp add: upper_def upper_char_def)

lemma upper_PATCH_eq: "upper ''PATCH'' = ''PATCH''"
  by (simp add: upper_def upper_char_def)

lemma sent_empty_world: "sent empty_world = []"
  by (simp add: sent_def empty_world_def)

lemma sample_urlencode: "urlencode sample_builtins [(k, v)] = k @ ''=''"
  by (simp add: sample_builtins_def)

text \<open>
  C8. The verb of a request is read from the method string by upper-casing it, as the
  check of \<open>_call\<close> does. When the verb is none of GET, POST, PUT and DELETE, \<open>_call\<close>
  raises the \<open>ValueError\<close> for an invalid method and leaves the world as it was: no request
  is sent, nothing is logged. When the verb is one of the four, \<open>_call\<close> raises no
  \<open>ValueError\<close> at all.
\<close>

theorem invalid_method_fails_fast:
  "(upper method \<notin> {''GET'', ''POST'', ''PUT'', ''DELETE''} \<longrightarrow>
      call b en cl method apipath params data w
        = (w, Inl (ValueError (''invalid method <'' @ method @ ''>''))))
   \<and> (upper method \<in> {''GET'', ''POST'', ''PUT'', ''DELETE''} \<longrightarrow>
      (\<forall>m. snd (call b en cl method apipath params data w) \<noteq> Inl (ValueError m)))"
  by (auto simp: call_def valid_methods_def query_string_def Let_def
      split: sum.splits http_outcome.splits pyval.splits)

theorem invalid_method_fails_fast_witness:
  "upper ''PATCH'' \<notin> {''GET'', ''POST'', ''PUT'', ''DELETE''}
   \<and> call sample_builtins sample_env sample_client ''PATCH'' ''profit'' PNone PNone empty_world
       = (empty_world, Inl (ValueError ''invalid method <PATCH>''))
   \<and> upper ''GET'' \<in> {''GET'', ''POST'', ''PUT'', ''DELETE''}
   \<and> snd (call sample_builtins sample_env sample_client ''GET'' ''profit'' PNone PNone empty_world)
       \<noteq> Inl (ValueError ''invalid method <GET>'')"
  using invalid_method_fails_fast [of "''PATCH''" sample_builtins sample_env sample_client
      "''profit''" PNone PNone empty_world]
    invalid_method_fails_fast [of "''GET''" sample_builtins sample_env sample_client
      "''profit''" PNone PNone empty_world]
  by (simp add: upper_PATCH_eq upper_GET_eq)

text \<open>
  C9. When the session raises \<open>ConnectionError\<close> for the request, \<open>_call\<close> does not raise:
  after the request it logs the warning \<open>Connection error\<close> and returns \<open>None\<close>.
\<close>

theorem connection_error_returns_none:
  assumes "upper method \<in> set valid_methods"
    and "query_string b params = Inr query"
    and "respond en (make_request b cl method apipath query data) = ConnectionError"
  shows "call b en cl method apipath params data w
           = (emit (LogWarning ''Connection error'')
                (emit (HttpRequest (make_request b cl method apipath query data)) w),
              Inr PNone)"
  using assms by (simp add: call_def Let_def)

theorem connection_error_returns_none_witness:
  "upper ''GET'' \<in> set valid_methods
   \<and> query_string sample_builtins PNone = Inr []
   \<and> respond offline_env (make_request sample_builtins sample_client ''GET'' ''profit'' [] PNone)
       = ConnectionError
   \<and> snd (call sample_builtins offline_env sample_client ''GET'' ''profit'' PNone PNone empty_world)
       = Inr PNone
   \<and> trace (fst (call sample_builtins offline_env sample_client ''GET'' ''profit'' PNone PNone
        empty_world))
       = [HttpRequest (make_request sample_builtins sample_client ''GET'' ''profit'' [] PNone),
          LogWarning ''Connection error'']"
  using connection_error_returns_none [of "''GET''" sample_builtins PNone "[]" offline_env
      sample_client "''profit''" PNone empty_world]
  by (simp add: upper_GET query_string_def offline_env_def emit_def empty_world_def)

text \<open>
  C10. \<open>daily\<close> with a day count that is false as a condition (\<open>0\<close>, \<open>None\<close>, an empty
  string) does exactly what \<open>daily\<close> without argument does, and the one request it sends
  has an empty query; with any other day count the query is the encoding of the single
  parameter \<open>timescale\<close>.
\<close>

theorem daily_zero_days_no_timescale:
  "(\<not> truthy days \<longrightarrow> daily b en cl days = daily b en cl PNone)
   \<and> sent (fst (daily b en cl days w))
       = sent w @ [make_request b cl ''GET'' ''daily''
                    (if truthy days then urlencode b [(''timescale'', days)] else []) PNone]"
  by (auto simp: daily_def get_def call_def upper_GET query_string_def Let_def sent_def emit_def
      split: http_outcome.splits)

theorem daily_zero_days_no_timescale_witness:
  "\<not> truthy (PInt 0)
   \<and> daily sample_builtins sample_env sample_client (PInt 0)
       = daily sample_builtins sample_env sample_client PNone
   \<and> map req_query (sent (fst (daily sample_builtins sample_env sample_client (PInt 0) empty_world)))
       = [[]]
   \<and> map req_query (sent (fst (daily sample_builtins sample_env sample_client (PInt 7) empty_world)))
       = [''timescale='']"
proof -
  note zero = daily_zero_days_no_timescale
    [of "PInt 0" sample_builtins sample_env sample_client empty_world]
  note seven = daily_zero_days_no_timescale
    [of "PInt 7" sample_builtins sample_env sample_client empty_world]
  from zero have a: "daily sample_builtins sample_env sample_client (PInt 0)
      = daily sample_builtins sample_env sample_client PNone"
    by simp
  from zero [THEN conjunct2] have b: "map req_query
      (sent (fst (daily sample_builtins sample_env sample_client (PInt 0) empty_world))) = [[]]"
    by (simp add: sent_empty_world make_request_def)
  from seven [THEN conjunct2] have c: "map req_query
      (sent (fst (daily sample_builtins sample_env sample_client (PInt 7) empty_world)))
      = [''timescale='']"
    by (simp add: sent_empty_world make_request_def sample_urlencode)
  from a b c show ?thesis
    by simp
qed

section \<open>The report\<close>

lemma py_add_float_sum:
  assumes "py_float b starting_capital = Inr s"
    and "py_add_float starting_capital c = Inr current_capital"
  shows "current_capital = s + c"
  using assms by (cases starting_capital) (auto split: option.splits if_splits)

lemma derived_metrics_numeric:
  assumes "subscript output_daily_data ''abs_profit'' = Inr av" and "py_float b av = Inr a"
    and "subscript output_profit ''profit_closed_coin'' = Inr cv" and "py_float b cv = Inr c"
    and "subscript output_profit ''profit_all_coin'' = Inr lv" and "py_float b lv = Inr l"
    and "subscript output_profit ''best_rate'' = Inr rv" and "py_float b rv = Inr r"
    and "py_float b starting_capital = Inr s" and "py_float b position_size = Inr z"
    and "py_add_float starting_capital c = Inr current_capital"
  shows "derived_metrics b output_profit output_daily_data starting_capital position_size
           = (if s = 0 \<or> s + c = 0 then Inl ZeroDivisionError
              else Inr \<lparr>closed_profit_today = fmt2 (100 * a / s),
                    closed_profit_percentage_total = fmt2 (100 * c / s),
                    open_profit_percentage_total = fmt2 (100 * l / s),
                    position_size_percentage = fmt2 (100 * z / (s + c)),
                    best_pair_profit_percentage = fmt2 (100 * r / s)\<rparr>)"
proof -
  have cur: "current_capital = s + c"
    using assms(9,11) by (rule py_add_float_sum)
  show ?thesis
    using assms cur
    by (simp add: derived_metrics_def percentage_def ebind_def)
qed

lemma fmt2_today: "fmt2 (100 * 10 / 1000) = ''1.00''"
  by code_simp

lemma fmt2_closed: "fmt2 (100 * 100 / 1000) = ''10.00''"
  by code_simp

lemma fmt2_open: "fmt2 (100 * 150 / 1000) = ''15.00''"
  by code_simp

lemma fmt2_size: "fmt2 (100 * 50 / (1000 + 100)) = ''4.55''"
  by code_simp

lemma fmt2_best: "fmt2 (100 * 20 / 1000) = ''2.00''"
  by code_simp

lemma sample_daily_fields:
  "subscript sample_daily_data ''abs_profit'' = Inr (PInt 10)"
  "subscript sample_daily_data ''date'' = Inr (PStr ''2024-01-01'')"
  "subscript sample_daily_data ''trade_count'' = Inr (PInt 2)"
  by (simp_all add: sample_daily_data_def)

lemma sample_profit_fields:
  "subscript sample_profit ''profit_closed_coin'' = Inr (PInt 100)"
  "subscript sample_profit ''profit_all_coin'' = Inr (PInt 150)"
  "subscript sample_profit ''best_rate'' = Inr (PInt 20)"
  "subscript sample_profit ''best_pair'' = Inr (PStr ''ETH/BTC'')"
  "subscript sample_profit ''trade_count'' = Inr (PInt 10)"
  "subscript sample_profit ''closed_trade_count'' = Inr (PInt 8)"
  "subscript sample_profit ''latest_trade_date'' = Inr (PStr ''2024-01-01'')"
  "subscript sample_profit ''avg_duration'' = Inr (PStr ''2:30'')"
  by (simp_all add: sample_profit_def)


lemma sample_numbers:
  "py_float b (PInt 10) = Inr 10" "py_float b (PInt 100) = Inr 100"
  "py_float b (PInt 150) = Inr 150" "py_float b (PInt 20) = Inr 20"
  "py_float b (PInt 1000) = Inr 1000" "py_float b (PInt 50) = Inr 50"
  "py_float b (PInt (- 1000)) = Inr (- 1000)"
  "py_add_float (PInt 1000) 100 = Inr (1000 + 100)"
  "py_add_float (PInt 1000) (- 1000) = Inr (1000 + - 1000)"
  by simp_all

lemma sample_metrics:
  "derived_metrics sample_builtins sample_profit sample_daily_data (PInt 1000) (PInt 50)
     = Inr \<lparr>closed_profit_today = ''1.00'',
            closed_profit_percentage_total = ''10.00'',
            open_profit_percentage_total = ''15.00'',
            position_size_percentage = ''4.55'',
            best_pair_profit_percentage = ''2.00''\<rparr>"
proof -
  note m = derived_metrics_numeric [of sample_daily_data _ sample_builtins _ sample_profit,
    OF sample_daily_fields(1) sample_numbers(1) sample_profit_fields(1) sample_numbers(2)
       sample_profit_fields(2) sample_numbers(3) sample_profit_fields(3) sample_numbers(4)
       sample_numbers(5) sample_numbers(6) sample_numbers(8),
    unfolded fmt2_today fmt2_closed fmt2_open fmt2_size fmt2_best]
  then show ?thesis
    by simp
qed








section \<open>The record store\<close>

lemma sample_db_save:
  "db_save sample_builtins sample_env sample_config sample_profit sample_daily_data
     (PInt 1000) (PInt 50) empty_world
   = (\<lparr>trace = [Print ''Saving to database...'', SqlCreate,
         SqlInsert [PFloat 1700000000, PStr ''2024-01-01'', PStr ''1.00'', PInt 2,
           PStr ''10.00'', PStr ''15.00'', PStr ''4.55'', PStr ''2.00'', PStr ''ETH/BTC'',
           PInt 10, PInt 8, PStr ''2024-01-01'', PStr ''2:30'']],
       db = Some \<lparr>columns = trades_columns,
         rows = [[PFloat 1700000000, PStr ''2024-01-01'', PStr ''1.00'', PInt 2,
           PStr ''10.00'', PStr ''15.00'', PStr ''4.55'', PStr ''2.00'', PStr ''ETH/BTC'',
           PInt 10, PInt 8, PStr ''2024-01-01'', PStr ''2:30'']]\<rparr>\<rparr>, Inr ())"
  by (simp add: db_save_def sample_metrics wbind_def Let_def emit_def empty_world_def
      sample_env_def sample_daily_fields sample_profit_fields sql_create_def sql_insert_def
      trades_columns_def)

text \<open>
  C5 does not hold of \<open>db_save\<close>. The values of the \<open>INSERT\<close> are bound by position, and
  the tuple lists the percentage of the best pair before its name, while the table
  declares the column \<open>best_pair\<close> before the column \<open>best_pair_profit_percentage\<close>. On
  the example the row holds 2.00 as the best pair and ETH/BTC as its percentage.
\<close>

theorem db_save_swaps_best_pair_columns:
  "snd (db_save sample_builtins sample_env sample_config sample_profit sample_daily_data
          (PInt 1000) (PInt 50) empty_world) = Inr ()
   \<and> stored (fst (db_save sample_builtins sample_env sample_config sample_profit
          sample_daily_data (PInt 1000) (PInt 50) empty_world)) ''best_pair''
       = [Some (PStr ''2.00'')]
   \<and> stored (fst (db_save sample_builtins sample_env sample_config sample_profit
          sample_daily_data (PInt 1000) (PInt 50) empty_world)) ''best_pair_profit_percentage''
       = [Some (PStr ''ETH/BTC'')]"
  by (simp add: sample_db_save stored_def column_value_def trades_columns_def)

section \<open>Exceptions of a poll cycle\<close>

lemma catchable_simps [simp]:
  "catchable (Inr v)" "catchable (Inl e) = is_Exception e"
  by (simp_all add: catchable_def)



















section \<open>The scheduler\<close>

lemma valid_interval_sleep:
  "valid_interval v \<Longrightarrow> time_sleep v w = (emit (Sleep v) w, Inr ())"
  by (cases v) simp_all



lemma cycle_exit:
  assumes "valid_interval (g_run_interval g)" and "main b en g args w = (w1, Inl (SystemExit c))"
  shows "cycle b en g args w = (emit (Sleep (g_run_interval g)) w1, Some (SystemExit c))"
  using assms by (simp add: cycle_def wbind_def valid_interval_sleep)



lemma sleeps_emit:
  "length (filter is_sleep (trace (emit (Sleep v) w))) = Suc (length (filter is_sleep (trace w)))"
  by (simp add: emit_def)




lemma extends_refl [simp]: "extends P w w"
  by (simp add: extends_def)





lemma extends_db_update [simp]: "extends P w (w1\<lparr>db := d\<rparr>) = extends P w w1"
  by (simp add: extends_def)









section \<open>A cycle without data\<close>

lemma quiet_refl [simp]: "quiet w w"
  by (simp add: quiet_def)


lemma quiet_emit: "\<not> is_publish e \<Longrightarrow> quiet w (emit e w)"
  by (simp add: quiet_def emit_def)







lemma api_server_get_total:
  assumes "api_server_get config k = Inr v" and "v \<noteq> PNone"
  shows "\<exists>v'. api_server_get config k' = Inr v'"
  using assms by (auto simp: api_server_get_def split: pyval.splits option.splits)

lemma valid_interval_not_None: "valid_interval v \<Longrightarrow> v \<noteq> PNone"
  by auto

lemma program_runs:
  assumes "api_server_get config ''run_interval'' = Inr ri" and "ri \<noteq> PNone"
  shows "\<exists>g. g_run_interval g = ri
           \<and> program n b (Document config) envs args w
               = run n b envs g args
                   (emit (Print (''Tweeting configured to '' @ str_of b (g_send_tweet g)))
                      (emit (Print (''Database saving configured to ''
                         @ str_of b (g_save_to_db g))) w))"
proof -
  note total = api_server_get_total [OF assms]
  obtain url where 1: "api_server_get config ''server_url'' = Inr url" using total by blast
  obtain port where 2: "api_server_get config ''listen_port'' = Inr port" using total by blast
  obtain username where 3: "api_server_get config ''username'' = Inr username"
    using total by blast
  obtain password where 4: "api_server_get config ''password'' = Inr password"
    using total by blast
  obtain save_to_db where 5: "api_server_get config ''save_to_db'' = Inr save_to_db"
    using total by blast
  obtain send_tweet where 6: "api_server_get config ''send_tweet'' = Inr send_tweet"
    using total by blast
  obtain starting_capital where 7:
    "api_server_get config ''starting_capital'' = Inr starting_capital"
    using total by blast
  obtain position_size where 8: "api_server_get config ''position_size'' = Inr position_size"
    using total by blast
  show ?thesis
    by (rule exI [of _ "\<lparr>g_config = config, g_url = url, g_port = port, g_username = username,
                g_password = password, g_save_to_db = save_to_db, g_send_tweet = send_tweet,
                g_starting_capital = starting_capital, g_position_size = position_size,
                g_run_interval = ri\<rparr>"])
       (simp add: program_def load_config_def wbind_def 1 2 3 4 5 6 7 8 assms(1))
qed





lemma empty_world_simps: "trace empty_world = []" "db empty_world = None"
  by (simp_all add: empty_world_def)







section \<open>The command listing\<close>

lemma print_members_trace:
  assumes "\<forall>(x, y) \<in> set ms. \<not> startswith x ''_'' \<longrightarrow> y \<noteq> None"
  shows "print_members ms w = (w\<lparr>trace := trace w @ listing ms\<rparr>, Inr ())"
  using assms
proof (induction ms arbitrary: w)
  case Nil
  show ?case by (simp add: listing_def described_def)
next
  case (Cons m ms)
  obtain x y where m: "m = (x, y)" by (cases m)
  have ih: "print_members ms w' = (w'\<lparr>trace := trace w' @ listing ms\<rparr>, Inr ())" for w'
    using Cons by simp
  show ?case
  proof (cases "startswith x ''_''")
    case True
    then show ?thesis
      unfolding m by (cases y) (simp_all add: ih listing_def described_def)
  next
    case False
    with Cons.prems obtain d where y: "y = Some d"
      unfolding m by auto
    show ?thesis
      unfolding m y using False by (simp add: ih listing_def described_def emit_def)
  qed
qed

lemma members_documented: "\<forall>(x, y) \<in> set members. \<not> startswith x ''_'' \<longrightarrow> y \<noteq> None"
  by (simp add: members_def startswith_def)

lemma print_commands_trace:
  "print_commands_fn w
     = (w\<lparr>trace := trace w @ Print (''Possible commands:'' @ [nl]) # listing members\<rparr>, Inr ())"
  by (simp add: print_commands_fn_def print_members_trace [OF members_documented] emit_def)




lemma show_main:
  "show_flag args \<Longrightarrow>
     main b en g args w
       = (w\<lparr>trace := trace w @ Print (''Possible commands:'' @ [nl]) # listing members\<rparr>,
          Inl (SystemExit 0))"
  by (simp add: main_def print_commands_trace wbind_def)

lemma show_cycle:
  assumes "show_flag args" and "valid_interval (g_run_interval g)"
  shows "cycle b en g args w
           = (emit (Sleep (g_run_interval g))
                (w\<lparr>trace := trace w @ Print (''Possible commands:'' @ [nl]) # listing members\<rparr>),
              Some (SystemExit 0))"
  by (rule cycle_exit [OF assms(2) show_main [OF assms(1)]])

lemma show_args_flag: "show_flag show_args"
  by (simp add: show_args_def sample_args_def)

lemma sample_config_interval: "api_server_get sample_config ''run_interval'' = Inr (PInt 3600)"
  by (simp add: api_server_get_def sample_config_def)




text \<open>
  With \<open>--show\<close> the exit is not immediate: \<open>SystemExit\<close> is raised inside the \<open>try\<close> of the
  loop, so the \<open>finally\<close> block sleeps for the run interval once before the process ends.
\<close>

theorem show_sleeps_before_exit:
  assumes "show_flag args" and "api_server_get config ''run_interval'' = Inr ri"
    and "valid_interval ri"
  shows "filter is_sleep (trace (fst (program (Suc n) b (Document config) envs args w)))
           = filter is_sleep (trace w) @ [Sleep ri]"
proof -
  obtain g where g: "g_run_interval g = ri"
    and p: "program (Suc n) b (Document config) envs args w
               = run (Suc n) b envs g args
                   (emit (Print (''Tweeting configured to '' @ str_of b (g_send_tweet g)))
                      (emit (Print (''Database saving configured to ''
                         @ str_of b (g_save_to_db g))) w))"
    using program_runs [OF assms(2) valid_interval_not_None [OF assms(3)]] by blast
  have v: "valid_interval (g_run_interval g)"
    using assms(3) g by simp
  have "filter is_sleep (listing members) = []"
    by (simp add: listing_def filter_map o_def split_def)
  then show ?thesis
    unfolding p by (simp add: show_cycle [OF assms(1) v] emit_def g)
qed

theorem show_sleeps_before_exit_witness:
  "show_flag show_args
   \<and> api_server_get sample_config ''run_interval'' = Inr (PInt 3600)
   \<and> valid_interval (PInt 3600)
   \<and> filter is_sleep (trace (fst (program (Suc 0) sample_builtins (Document sample_config)
        sample_envs show_args empty_world))) = [Sleep (PInt 3600)]"
proof -
  have v: "valid_interval (PInt 3600)"
    by simp
  from show_sleeps_before_exit [OF show_args_flag sample_config_interval v,
    of 0 sample_builtins sample_envs empty_world]
  show ?thesis
    by (simp add: show_args_flag sample_config_interval empty_world_simps)
qed

end
